theory Spec2Isabelle
  imports Main "HOL-Library.AList" "HOL-Library.Sublist"
begin

section \<open>The batch job of \<open>src/main.py\<close>\<close>

text \<open>
  The job reads its settings from the environment when the module is loaded, fetches a
  batch of pending rows from BigQuery, marks them \<open>PROCESSING\<close>, calls the URL processor
  service for each row through a thread pool, and writes every result back.

  BigQuery and the HTTP endpoint are outside the program. What they answer is a parameter
  of the model (the record \<open>world\<close>); what the job asks of them is recorded, in program
  order of the main thread, as a list of events returned beside the job's result.
\<close>

subsection \<open>Python values\<close>

text \<open>Exceptions the job can see, with the text \<open>str(e)\<close> gives where it is formatted.\<close>

datatype exn =
    ValueError string
  | NotFound string
  | TimeoutError
  | Exception string

fun exn_str :: "exn \<Rightarrow> string" where
  "exn_str (ValueError m) = m"
| "exn_str (NotFound m) = m"
| "exn_str TimeoutError = []"
| "exn_str (Exception m) = m"

text \<open>\<open>os.environ.get(name)\<close> gives \<open>None\<close> for a variable that is not set.\<close>

type_synonym environ = "string \<rightharpoonup> string"

text \<open>\<open>not v\<close> for a value that is \<open>None\<close> or a string.\<close>

definition py_not :: "string option \<Rightarrow> bool" where
  "py_not v = (v = None \<or> v = Some [])"

text \<open>A value that is \<open>None\<close> or a string, inside an f-string.\<close>

definition py_str :: "string option \<Rightarrow> string" where
  "py_str v = (case v of None \<Rightarrow> ''None'' | Some s \<Rightarrow> s)"

text \<open>\<open>s.startswith(p)\<close>.\<close>

fun startswith :: "string \<Rightarrow> string \<Rightarrow> bool" where
  "startswith s [] = True"
| "startswith [] (p # ps) = False"
| "startswith (c # cs) (p # ps) = (c = p \<and> startswith cs ps)"

text \<open>A count inside an f-string: the decimal digits of a natural number.\<close>

definition digit :: "nat \<Rightarrow> char" where
  "digit n = ''0123456789'' ! (n mod 10)"

function str_nat :: "nat \<Rightarrow> string" where
  "str_nat n = (if n < 10 then [digit n] else str_nat (n div 10) @ [digit n])"
  by pat_completeness auto
termination
  by (relation "measure id") auto

declare str_nat.simps [simp del]

subsection \<open>Configuration (lines 13 to 20)\<close>

record config =
  BIGQUERY_PROJECT :: "string option"
  BIGQUERY_DATASET :: "string option"
  BIGQUERY_TABLE_SOURCE :: "string option"
  BIGQUERY_TABLE_TARGET :: "string option"
  URL_PROCESSOR_SERVICE_URL :: string

definition DEFAULT_URL :: string where
  "DEFAULT_URL = ''https://python-video-context-YOUR_PROJECT_NUMBER.us-central1.run.app''"

text \<open>
  Four settings are read with \<open>os.environ.get(name)\<close>; the endpoint address is read with
  a default, so it is a string whether or not the variable is set.
\<close>

definition read_config :: "environ \<Rightarrow> config" where
  "read_config env =
     \<lparr> BIGQUERY_PROJECT = env ''BIGQUERY_PROJECT'',
       BIGQUERY_DATASET = env ''BIGQUERY_DATASET'',
       BIGQUERY_TABLE_SOURCE = env ''BIGQUERY_TABLE_SOURCE'',
       BIGQUERY_TABLE_TARGET = env ''BIGQUERY_TABLE_TARGET'',
       URL_PROCESSOR_SERVICE_URL =
         (case env ''URL_PROCESSOR_SERVICE_URL'' of None \<Rightarrow> DEFAULT_URL | Some u \<Rightarrow> u) \<rparr>"

text \<open>The tunables set at the head of \<open>process_batch_from_bq\<close> (lines 118 to 120).\<close>

definition BATCH_SIZE :: nat where
  "BATCH_SIZE = 5"

definition MAX_CONCURRENT_TASKS_PER_INSTANCE :: nat where
  "MAX_CONCURRENT_TASKS_PER_INSTANCE = 5"

definition URL_PROCESSOR_TIMEOUT_SECONDS :: nat where
  "URL_PROCESSOR_TIMEOUT_SECONDS = 600"

text \<open>The backquoted table name of the three SQL statements.\<close>

definition table_ref :: "config \<Rightarrow> string option \<Rightarrow> string" where
  "table_ref cfg t =
     py_str (BIGQUERY_PROJECT cfg) @ ''.'' @ py_str (BIGQUERY_DATASET cfg) @ ''.'' @ py_str t"

subsection \<open>The outside world\<close>

text \<open>One fetched row: the dictionary \<open>{"url": row.url, "id": row.id}\<close> of line 137.\<close>

record item =
  url :: string
  row_id :: string

text \<open>
  What \<open>requests.post\<close> does for one call: a response with its status code, its body and
  the text of the \<open>HTTPError\<close> that \<open>raise_for_status\<close> raises for it when the code is
  4xx or 5xx; or one of the three exception classes the function catches.
\<close>

datatype http_reply =
    Response nat string string
  | Timeout
  | RequestException string
  | OtherException string

text \<open>
  The fate of one submitted task: what the HTTP call does inside the worker, and what
  \<open>future.result(timeout=...)\<close> raises in the main thread (\<open>None\<close>: it returns the
  worker's value in time).
\<close>

record fate =
  http :: http_reply
  wait :: "exn option"

text \<open>
  The replies of the collaborators in one run. \<open>client_init\<close> is the error of
  \<open>bigquery.Client(...)\<close>, if any; \<open>fetch_reply\<close> the rows of the SELECT or the
  exception it raises; \<open>claim_reply\<close> the exception of the bulk UPDATE, if any;
  \<open>fates\<close> the fate of each task by submission index; \<open>write_reply\<close> the exception of
  the single-row UPDATE for a row id, if any.
\<close>

record world =
  client_init :: "string option"
  fetch_reply :: "exn + item list"
  claim_reply :: "exn option"
  fates :: "nat \<Rightarrow> fate"
  write_reply :: "string \<Rightarrow> exn option"

datatype status = PENDING | PROCESSING | COMPLETED | FAILED_PROCESSING

text \<open>
  What the main thread asks of the collaborators: the SELECT with its table and LIMIT, the
  bulk UPDATE with its table and id array, the submission of one call to the pool with its
  URL, and the single-row UPDATE with its table, row id, context and status.
\<close>

datatype event =
    Query_fetch string nat
  | Query_claim string "string list"
  | Submit string
  | Query_write string string string status

fun is_submit :: "event \<Rightarrow> bool" where
  "is_submit (Submit u) = True"
| "is_submit e = False"

fun is_write :: "event \<Rightarrow> bool" where
  "is_write (Query_write t i c s) = True"
| "is_write e = False"

text \<open>The result of a run: the returned pair (message, code), or the exception that escapes.\<close>

datatype job_result =
    Returned string nat
  | Raised exn

subsection \<open>\<open>call_url_processor_service\<close> (lines 36 to 70)\<close>

definition call_url_processor_service :: "config \<Rightarrow> http_reply \<Rightarrow> string \<Rightarrow> string" where
  "call_url_processor_service cfg reply u =
     (case reply of
        Response code text err \<Rightarrow>
          if 400 \<le> code \<and> code < 600
          then ''ERROR: Request failed for '' @ [CHR 0x27] @ u @ [CHR 0x27] @ ''. Details: '' @ err
          else text
      | Timeout \<Rightarrow>
          ''ERROR: Timeout processing '' @ [CHR 0x27] @ u @ [CHR 0x27] @ '' at ''
            @ URL_PROCESSOR_SERVICE_URL cfg
      | RequestException e \<Rightarrow>
          ''ERROR: Request failed for '' @ [CHR 0x27] @ u @ [CHR 0x27] @ ''. Details: '' @ e
      | OtherException e \<Rightarrow>
          ''ERROR: Unexpected error for '' @ [CHR 0x27] @ u @ [CHR 0x27] @ ''. Details: '' @ e)"

subsection \<open>\<open>update_bq_row\<close> (lines 74 to 103)\<close>

text \<open>Returns the boolean of the source and the query it issued, if it issued one.\<close>

definition update_bq_row ::
  "config \<Rightarrow> world \<Rightarrow> string \<Rightarrow> string \<Rightarrow> status \<Rightarrow> bool \<times> event list" where
  "update_bq_row cfg w rid ctx st =
     (if py_not (BIGQUERY_TABLE_TARGET cfg) then (False, [])
      else (case write_reply w rid of
              None \<Rightarrow> (True, [Query_write (table_ref cfg (BIGQUERY_TABLE_TARGET cfg)) rid ctx st])
            | Some e \<Rightarrow> (False, [Query_write (table_ref cfg (BIGQUERY_TABLE_TARGET cfg)) rid ctx st])))"

subsection \<open>\<open>process_batch_from_bq\<close> (lines 106 to 210)\<close>

text \<open>The entries of \<open>processed_results\<close>: \<open>{"context": ..., "status": ...}\<close>.\<close>

record outcome =
  context_str :: string
  status :: status

text \<open>
  \<open>processed_results\<close> is a dictionary keyed by row id. A Python dictionary keeps its keys
  in insertion order and an assignment to a key that is present replaces the value in
  place; an association list under \<open>AList.update\<close> does the same.
\<close>

type_synonym results = "(string \<times> outcome) list"

text \<open>
  The value of \<open>future.result(timeout=URL_PROCESSOR_TIMEOUT_SECONDS)\<close> for a task
  submitted with URL \<open>u\<close>: the string the worker returns, or the exception of the wait.
\<close>

definition future_result :: "config \<Rightarrow> fate \<Rightarrow> string \<Rightarrow> exn + string" where
  "future_result cfg f u =
     (case wait f of
        None \<Rightarrow> Inr (call_url_processor_service cfg (http f) u)
      | Some e \<Rightarrow> Inl e)"

text \<open>The first loop of step 3 (lines 170 to 175): the list \<open>futures\<close>.\<close>

definition submit_all :: "config \<Rightarrow> world \<Rightarrow> item list \<Rightarrow> (string \<times> (exn + string)) list" where
  "submit_all cfg w pending_urls_data =
     map (\<lambda>(i, it). (row_id it, future_result cfg (fates w i) (url it)))
       (enumerate 0 pending_urls_data)"

text \<open>The body of the second loop (lines 179 to 191): the entry stored for one future.\<close>

fun outcome_of :: "string \<Rightarrow> exn + string \<Rightarrow> outcome" where
  "outcome_of rid (Inr content) =
     (if startswith content ''ERROR:''
      then \<lparr> context_str = content, status = FAILED_PROCESSING \<rparr>
      else \<lparr> context_str = content, status = COMPLETED \<rparr>)"
| "outcome_of rid (Inl TimeoutError) =
     \<lparr> context_str = ''ERROR: Processing timed out for '' @ [CHR 0x27] @ rid @ [CHR 0x27] @ ''.'',
       status = FAILED_PROCESSING \<rparr>"
| "outcome_of rid (Inl e) =
     \<lparr> context_str = ''ERROR: Unexpected error during result retrieval for '' @ [CHR 0x27] @ rid
         @ [CHR 0x27] @ ''. Details: '' @ exn_str e,
       status = FAILED_PROCESSING \<rparr>"

text \<open>The second loop: \<open>processed_results[row_id] = ...\<close> for each future in order.\<close>

fun collect :: "(string \<times> (exn + string)) list \<Rightarrow> results \<Rightarrow> results" where
  "collect [] processed_results = processed_results"
| "collect ((rid, fut) # futures) processed_results =
     collect futures (AList.update rid (outcome_of rid fut) processed_results)"

text \<open>Step 3 as a whole: the dictionary after the pool has been left.\<close>

definition dispatch :: "config \<Rightarrow> world \<Rightarrow> item list \<Rightarrow> results" where
  "dispatch cfg w pending_urls_data = collect (submit_all cfg w pending_urls_data) []"

text \<open>Step 4 (lines 195 to 198): \<open>successful_updates\<close> and the queries issued.\<close>

fun write_back :: "config \<Rightarrow> world \<Rightarrow> results \<Rightarrow> nat \<times> event list" where
  "write_back cfg w [] = (0, [])"
| "write_back cfg w ((rid, d) # rest) =
     (let (ok, evs) = update_bq_row cfg w rid (context_str d) (status d);
          (n, evs') = write_back cfg w rest
      in ((if ok then Suc n else n), evs @ evs'))"

text \<open>The two handlers at the end of the \<open>try\<close> block (lines 204 to 210).\<close>

fun handle_exn :: "exn \<Rightarrow> job_result" where
  "handle_exn (NotFound m) = Returned ''Source table not found.'' 404"
| "handle_exn e = Raised e"

definition final_message :: "nat \<Rightarrow> nat \<Rightarrow> string" where
  "final_message processed successful_updates =
     ''Batch processing complete. Processed '' @ str_nat processed @ '' URLs, updated ''
       @ str_nat successful_updates @ ''.''"

definition process_batch_from_bq :: "config \<Rightarrow> world \<Rightarrow> job_result \<times> event list" where
  "process_batch_from_bq cfg w =
     (if py_not (BIGQUERY_TABLE_SOURCE cfg)
      then (Returned ''Configuration error: BIGQUERY_TABLE_SOURCE is not set.'' 500, [])
      else if URL_PROCESSOR_SERVICE_URL cfg = []
      then (Returned ''Configuration error: URL_PROCESSOR_SERVICE_URL is not set.'' 500, [])
      else
        let src = table_ref cfg (BIGQUERY_TABLE_SOURCE cfg) in
        (case fetch_reply w of
           Inl e \<Rightarrow> (handle_exn e, [Query_fetch src BATCH_SIZE])
         | Inr pending_urls_data \<Rightarrow>
             if pending_urls_data = []
             then (Returned ''No pending URLs found. Job finished.'' 200,
                   [Query_fetch src BATCH_SIZE])
             else
               let row_ids_to_process = map row_id pending_urls_data in
               (case claim_reply w of
                  Some e \<Rightarrow>
                    (handle_exn e,
                     [Query_fetch src BATCH_SIZE, Query_claim src row_ids_to_process])
                | None \<Rightarrow>
                    let processed_results = dispatch cfg w pending_urls_data;
                        (successful_updates, writes) = write_back cfg w processed_results
                    in (Returned (final_message (length processed_results) successful_updates) 200,
                        [Query_fetch src BATCH_SIZE, Query_claim src row_ids_to_process]
                          @ map (\<lambda>it. Submit (url it)) pending_urls_data @ writes))))"

subsection \<open>The module as a whole (lines 13 to 32 and 212)\<close>

text \<open>
  Loading the module reads the configuration, creates the BigQuery client (re-raising its
  error), raises \<open>ValueError\<close> when the endpoint address is empty, and then calls
  \<open>process_batch_from_bq()\<close>.
\<close>

definition run_module :: "environ \<Rightarrow> world \<Rightarrow> job_result \<times> event list" where
  "run_module env w =
     (let cfg = read_config env in
      case client_init w of
        Some e \<Rightarrow> (Raised (Exception e), [])
      | None \<Rightarrow>
          if URL_PROCESSOR_SERVICE_URL cfg = []
          then (Raised (ValueError ''URL_PROCESSOR_SERVICE_URL must be set.''), [])
          else process_batch_from_bq cfg w)"

subsection \<open>Example runs\<close>

text \<open>
  Concrete settings, batches and replies, used where a statement is evaluated at an input:
  a full configuration, a world that answers the SELECT with the given rows and accepts
  the claim, four fates of a call, a batch of three rows, a batch of one row, and an
  environment that sets the source table only.
\<close>

definition example_config :: config where
  "example_config =
     \<lparr> BIGQUERY_PROJECT = Some ''proj'', BIGQUERY_DATASET = Some ''ds'',
       BIGQUERY_TABLE_SOURCE = Some ''videos'', BIGQUERY_TABLE_TARGET = Some ''videos'',
       URL_PROCESSOR_SERVICE_URL = ''https://svc'' \<rparr>"

definition example_world :: "item list \<Rightarrow> (nat \<Rightarrow> fate) \<Rightarrow> (string \<Rightarrow> exn option) \<Rightarrow> world" where
  "example_world rows fs wr =
     \<lparr> client_init = None, fetch_reply = Inr rows, claim_reply = None,
       fates = fs, write_reply = wr \<rparr>"

definition fate_ok :: fate where
  "fate_ok = \<lparr> http = Response 200 ''chapter'' [], wait = None \<rparr>"

definition fate_endpoint_error :: fate where
  "fate_endpoint_error = \<lparr> http = Response 200 ''ERROR: no video'' [], wait = None \<rparr>"

definition fate_http_timeout :: fate where
  "fate_http_timeout = \<lparr> http = Timeout, wait = None \<rparr>"

definition fate_wait_timeout :: fate where
  "fate_wait_timeout = \<lparr> http = Response 200 ''chapter'' [], wait = Some TimeoutError \<rparr>"

definition three_rows :: "item list" where
  "three_rows = [\<lparr> url = ''u1'', row_id = ''1'' \<rparr>, \<lparr> url = ''u2'', row_id = ''2'' \<rparr>,
                 \<lparr> url = ''u3'', row_id = ''3'' \<rparr>]"

definition one_row :: "item list" where
  "one_row = [\<lparr> url = ''https://youtu.be/abc'', row_id = ''42'' \<rparr>]"

definition env_source_only :: environ where
  "env_source_only = [''BIGQUERY_TABLE_SOURCE'' \<mapsto> ''videos'']"

text \<open>
  The counts of the specification's aggregate report, over a dictionary of outcomes; the
  program itself computes none of them.
\<close>

definition count_status :: "status \<Rightarrow> results \<Rightarrow> nat" where
  "count_status st outs = length (filter (\<lambda>(rid, d). status d = st) outs)"

section \<open>Properties\<close>

subsection \<open>Auxiliary facts\<close>

lemma startswith_iff_prefix: "startswith s p = prefix p s"
  by (induction s p rule: startswith.induct) auto


lemma outcome_of_content:
  "outcome_of rid (Inr content) =
     \<lparr> context_str = content,
       status = (if startswith content ''ERROR:'' then FAILED_PROCESSING else COMPLETED) \<rparr>"
  by simp

lemma keys_collect:
  "fst ` set (collect fs acc) = fst ` set fs \<union> fst ` set acc"
  by (induction fs acc rule: collect.induct) (auto simp: AList.dom_update)

lemma distinct_collect:
  "distinct (map fst acc) \<Longrightarrow> distinct (map fst (collect fs acc))"
  by (induction fs acc rule: collect.induct) (auto simp: AList.distinct_update)

lemma map_fst_enumerate_keys:
  "map fst (map (\<lambda>(i, it). (row_id it, g i it)) (enumerate n rows)) = map row_id rows"
  by (induction rows arbitrary: n) simp_all

lemma map_fst_submit_all: "map fst (submit_all cfg w rows) = map row_id rows"
  unfolding submit_all_def by (rule map_fst_enumerate_keys)

lemma keys_dispatch: "set (map fst (dispatch cfg w rows)) = set (map row_id rows)"
  using keys_collect [of "submit_all cfg w rows" "[]"] map_fst_submit_all [of cfg w rows]
  by (simp add: dispatch_def) (metis list.set_map)

lemma distinct_dispatch: "distinct (map fst (dispatch cfg w rows))"
  by (simp add: dispatch_def distinct_collect)

lemma length_dispatch: "length (dispatch cfg w rows) = card (set (map row_id rows))"
proof -
  have "length (dispatch cfg w rows) = length (map fst (dispatch cfg w rows))" by simp
  also have "\<dots> = card (set (map fst (dispatch cfg w rows)))"
    using distinct_dispatch by (simp only: distinct_card)
  finally show ?thesis by (simp only: keys_dispatch)
qed

lemma dispatch_count:
  "(length (dispatch cfg w rows) = length rows) = distinct (map row_id rows)"
  using card_distinct [of "map row_id rows"] distinct_card [of "map row_id rows"]
  by (auto simp: length_dispatch)

lemma collect_append: "collect (xs @ ys) acc = collect ys (collect xs acc)"
  by (induction xs acc rule: collect.induct) simp_all

lemma map_of_collect_other:
  "k \<notin> fst ` set fs \<Longrightarrow> map_of (collect fs acc) k = map_of acc k"
  by (induction fs acc rule: collect.induct) (auto simp: AList.update_conv')

lemma map_of_collect_last:
  "k \<notin> fst ` set post \<Longrightarrow>
   map_of (collect (pre @ (k, fut) # post) acc) k = Some (outcome_of k fut)"
  by (simp add: collect_append map_of_collect_other AList.update_conv')

lemma submit_all_nth:
  "i < length rows \<Longrightarrow>
   submit_all cfg w rows ! i =
     (row_id (rows ! i), future_result cfg (fates w i) (url (rows ! i)))"
  by (simp add: submit_all_def nth_enumerate_eq)

lemma length_submit_all: "length (submit_all cfg w rows) = length rows"
  by (simp add: submit_all_def)

lemma dispatch_entry:
  assumes i: "i < length rows"
    and last: "row_id (rows ! i) \<notin> row_id ` set (drop (Suc i) rows)"
  shows "map_of (dispatch cfg w rows) (row_id (rows ! i)) =
           Some (outcome_of (row_id (rows ! i))
                   (future_result cfg (fates w i) (url (rows ! i))))"
proof -
  let ?fs = "submit_all cfg w rows"
  let ?k = "row_id (rows ! i)"
  have len: "i < length ?fs" using i by (simp add: length_submit_all)
  have split: "?fs = take i ?fs @ ?fs ! i # drop (Suc i) ?fs"
    using len by (rule id_take_nth_drop)
  have "map fst (drop (Suc i) ?fs) = map row_id (drop (Suc i) rows)"
    by (simp add: map_fst_submit_all flip: drop_map)
  then have "fst ` set (drop (Suc i) ?fs) = row_id ` set (drop (Suc i) rows)"
    by (metis list.set_map)
  with last have notin: "?k \<notin> fst ` set (drop (Suc i) ?fs)" by simp
  have "map_of (collect (take i ?fs @ (?k, future_result cfg (fates w i) (url (rows ! i)))
          # drop (Suc i) ?fs) []) ?k
        = Some (outcome_of ?k (future_result cfg (fates w i) (url (rows ! i))))"
    using notin by (rule map_of_collect_last)
  then show ?thesis
    using split submit_all_nth [OF i, of cfg w] by (simp add: dispatch_def)
qed

lemma write_back_no_target:
  "py_not (BIGQUERY_TABLE_TARGET cfg) \<Longrightarrow> write_back cfg w outs = (0, [])"
  by (induction outs) (auto simp: update_bq_row_def)

lemma write_back_trace:
  "\<not> py_not (BIGQUERY_TABLE_TARGET cfg) \<Longrightarrow>
   snd (write_back cfg w outs) =
     map (\<lambda>(rid, d). Query_write (table_ref cfg (BIGQUERY_TABLE_TARGET cfg)) rid
            (context_str d) (status d)) outs"
  by (induction outs)
    (auto simp: update_bq_row_def split: prod.splits option.splits)

lemma write_back_count:
  "\<not> py_not (BIGQUERY_TABLE_TARGET cfg) \<Longrightarrow>
   fst (write_back cfg w outs) = length (filter (\<lambda>(rid, d). write_reply w rid = None) outs)"
  by (induction outs)
    (auto simp: update_bq_row_def split: prod.splits option.splits)

lemma write_back_le: "fst (write_back cfg w outs) \<le> length outs"
  by (induction outs)
    (auto simp: update_bq_row_def split: prod.splits option.splits)

lemma process_success:
  assumes "\<not> py_not (BIGQUERY_TABLE_SOURCE cfg)" and "URL_PROCESSOR_SERVICE_URL cfg \<noteq> []"
    and "fetch_reply w = Inr rows" and "rows \<noteq> []" and "claim_reply w = None"
  shows "process_batch_from_bq cfg w =
           (Returned (final_message (length (dispatch cfg w rows))
                        (fst (write_back cfg w (dispatch cfg w rows)))) 200,
            [Query_fetch (table_ref cfg (BIGQUERY_TABLE_SOURCE cfg)) BATCH_SIZE,
             Query_claim (table_ref cfg (BIGQUERY_TABLE_SOURCE cfg)) (map row_id rows)]
              @ map (\<lambda>it. Submit (url it)) rows
              @ snd (write_back cfg w (dispatch cfg w rows)))"
  using assms by (simp add: process_batch_from_bq_def Let_def split: prod.splits)

lemma update_fresh: "k \<notin> fst ` set al \<Longrightarrow> AList.update k v al = al @ [(k, v)]"
  by (induction al) auto

lemma collect_fresh_keys:
  "distinct (map fst fs) \<Longrightarrow> fst ` set fs \<inter> fst ` set acc = {} \<Longrightarrow>
   map fst (collect fs acc) = map fst acc @ map fst fs"
proof (induction fs acc rule: collect.induct)
  case (1 acc)
  then show ?case by simp
next
  case (2 rid fut futures acc)
  have fresh: "rid \<notin> fst ` set acc" using "2.prems"(2) by auto
  have upd: "AList.update rid (outcome_of rid fut) acc = acc @ [(rid, outcome_of rid fut)]"
    using fresh by (rule update_fresh)
  have "fst ` set futures \<inter> fst ` set (acc @ [(rid, outcome_of rid fut)]) = {}"
    using "2.prems" by auto
  with "2.IH" "2.prems"(1) upd show ?case by simp
qed

lemma dispatch_keys_in_order:
  "distinct (map row_id rows) \<Longrightarrow> map fst (dispatch cfg w rows) = map row_id rows"
  using collect_fresh_keys [of "submit_all cfg w rows" "[]"]
  by (simp add: dispatch_def map_fst_submit_all)

lemma collect_fresh:
  "distinct (map fst fs) \<Longrightarrow> fst ` set fs \<inter> fst ` set acc = {} \<Longrightarrow>
   collect fs acc = acc @ map (\<lambda>(rid, fut). (rid, outcome_of rid fut)) fs"
proof (induction fs acc rule: collect.induct)
  case (1 acc)
  then show ?case by simp
next
  case (2 rid fut futures acc)
  have fresh: "rid \<notin> fst ` set acc" using "2.prems"(2) by auto
  have upd: "AList.update rid (outcome_of rid fut) acc = acc @ [(rid, outcome_of rid fut)]"
    using fresh by (rule update_fresh)
  have "fst ` set futures \<inter> fst ` set (acc @ [(rid, outcome_of rid fut)]) = {}"
    using "2.prems" by auto
  with "2.IH" "2.prems"(1) upd show ?case by simp
qed

lemma dispatch_distinct_ids:
  assumes "distinct (map row_id rows)"
  shows "dispatch cfg w rows =
           map (\<lambda>(rid, fut). (rid, outcome_of rid fut)) (submit_all cfg w rows)"
  using assms collect_fresh [of "submit_all cfg w rows" "[]"]
  by (simp add: dispatch_def map_fst_submit_all)

subsection \<open>The dispatcher: one outcome per item\<close>

text \<open>
  Claim C1: for a fetched batch of n rows (n may be zero) whose ids are pairwise distinct,
  as the ids of work items are, the dispatcher returns exactly n outcomes: one for each
  row, under the row's id and in the order of the rows, with no id missing and none
  twice. This holds for every world \<open>w\<close>, that is whatever the calls and the waits on
  them do: a call that faults or times out yields the \<open>FAILED_PROCESSING\<close> outcome of
  its own row and leaves the others in place.
\<close>

theorem C1_one_outcome_per_item:
  assumes "distinct (map row_id rows)"
  shows "length (dispatch cfg w rows) = length rows
         \<and> map fst (dispatch cfg w rows) = map row_id rows
         \<and> distinct (map fst (dispatch cfg w rows))
         \<and> dispatch cfg w rows =
             map (\<lambda>(rid, fut). (rid, outcome_of rid fut)) (submit_all cfg w rows)"
proof -
  have "length (dispatch cfg w rows) = length rows"
    using assms by (simp only: dispatch_count)
  moreover have "map fst (dispatch cfg w rows) = map row_id rows"
    using assms by (rule dispatch_keys_in_order)
  moreover have "distinct (map fst (dispatch cfg w rows))"
    by (rule distinct_dispatch)
  moreover have "dispatch cfg w rows =
      map (\<lambda>(rid, fut). (rid, outcome_of rid fut)) (submit_all cfg w rows)"
    using assms by (rule dispatch_distinct_ids)
  ultimately show ?thesis by blast
qed

theorem C1_one_outcome_per_item_witness:
  "distinct (map row_id three_rows)
   \<and> length three_rows = 3
   \<and> length (dispatch example_config
        (example_world three_rows (\<lambda>i. if i = 2 then fate_wait_timeout else fate_ok) (\<lambda>r. None))
        three_rows) = 3
   \<and> map fst (dispatch example_config
        (example_world three_rows (\<lambda>i. if i = 2 then fate_wait_timeout else fate_ok) (\<lambda>r. None))
        three_rows) = [''1'', ''2'', ''3'']"
proof -
  have d: "distinct (map row_id three_rows)" by (simp add: three_rows_def)
  have ids: "map row_id three_rows = [''1'', ''2'', ''3'']" by (simp add: three_rows_def)
  have n: "length three_rows = 3" by (simp add: three_rows_def)
  note inst = C1_one_outcome_per_item [OF d, of example_config
        "example_world three_rows (\<lambda>i. if i = 2 then fate_wait_timeout else fate_ok) (\<lambda>r. None)"]
  from inst have a: "length (dispatch example_config
        (example_world three_rows (\<lambda>i. if i = 2 then fate_wait_timeout else fate_ok) (\<lambda>r. None))
        three_rows) = length three_rows"
    by (rule conjunct1)
  from inst have b: "map fst (dispatch example_config
        (example_world three_rows (\<lambda>i. if i = 2 then fate_wait_timeout else fate_ok) (\<lambda>r. None))
        three_rows) = map row_id three_rows"
    by (rule conjunct2 [THEN conjunct1])
  show ?thesis by (simp only: a b ids n) simp
qed

lemma write_back_events:
  assumes "e \<in> set (snd (write_back cfg w outs))"
  shows "\<exists>rid d. (rid, d) \<in> set outs \<and>
     e = Query_write (table_ref cfg (BIGQUERY_TABLE_TARGET cfg)) rid (context_str d) (status d)"
proof (cases "py_not (BIGQUERY_TABLE_TARGET cfg)")
  case True
  with assms show ?thesis by (simp add: write_back_no_target)
next
  case False
  with assms show ?thesis by (auto simp: write_back_trace)
qed

lemma process_shapes:
  "process_batch_from_bq cfg w = (res, tr) \<Longrightarrow>
   tr = [] \<or> tr = [Query_fetch (table_ref cfg (BIGQUERY_TABLE_SOURCE cfg)) BATCH_SIZE]
   \<or> (\<exists>rows. fetch_reply w = Inr rows \<and> claim_reply w \<noteq> None \<and>
        tr = [Query_fetch (table_ref cfg (BIGQUERY_TABLE_SOURCE cfg)) BATCH_SIZE,
              Query_claim (table_ref cfg (BIGQUERY_TABLE_SOURCE cfg)) (map row_id rows)])
   \<or> (\<exists>rows. fetch_reply w = Inr rows \<and> claim_reply w = None \<and>
        tr = [Query_fetch (table_ref cfg (BIGQUERY_TABLE_SOURCE cfg)) BATCH_SIZE,
              Query_claim (table_ref cfg (BIGQUERY_TABLE_SOURCE cfg)) (map row_id rows)]
               @ map (\<lambda>it. Submit (url it)) rows
               @ snd (write_back cfg w (dispatch cfg w rows)))"
  by (auto simp: process_batch_from_bq_def Let_def
      split: if_splits sum.splits option.splits prod.splits)

lemma str_nat_digit: "n < 10 \<Longrightarrow> str_nat n = [digit n]"
  by (simp add: str_nat.simps)

lemma example_table_ref:
  "table_ref example_config (BIGQUERY_TABLE_SOURCE example_config) = ''proj.ds.videos''"
  "table_ref example_config (BIGQUERY_TABLE_TARGET example_config) = ''proj.ds.videos''"
  by (simp_all add: table_ref_def example_config_def py_str_def)

lemma example_config_set:
  "\<not> py_not (BIGQUERY_TABLE_SOURCE example_config)"
  "\<not> py_not (BIGQUERY_TABLE_TARGET example_config)"
  "URL_PROCESSOR_SERVICE_URL example_config \<noteq> []"
  by (simp_all add: example_config_def py_not_def)

lemma example_world_sel:
  "client_init (example_world rows fs wr) = None"
  "fetch_reply (example_world rows fs wr) = Inr rows"
  "claim_reply (example_world rows fs wr) = None"
  "fates (example_world rows fs wr) = fs"
  "write_reply (example_world rows fs wr) = wr"
  by (simp_all add: example_world_def)

lemma three_rows_dispatch_ok:
  "dispatch cfg (example_world three_rows (\<lambda>i. fate_ok) wr) three_rows =
     [(''1'', \<lparr> context_str = ''chapter'', status = COMPLETED \<rparr>),
      (''2'', \<lparr> context_str = ''chapter'', status = COMPLETED \<rparr>),
      (''3'', \<lparr> context_str = ''chapter'', status = COMPLETED \<rparr>)]"
  by (simp add: dispatch_def submit_all_def three_rows_def example_world_sel fate_ok_def
      future_result_def call_url_processor_service_def)

subsection \<open>Claim before dispatch and before every write\<close>

text \<open>
  Claim C2: in every run of \<open>process_batch_from_bq\<close> whose main thread submits a call to
  the pool or issues a single-row UPDATE, the SELECT returned rows, the one bulk UPDATE
  naming the ids of all fetched rows returned without raising, and the events of the run
  are, in this order: the SELECT, that bulk UPDATE, one submission per fetched row, and
  then the single-row UPDATEs, each of which names the id of a fetched row. So the claim
  of an id precedes its dispatch and its result write.
\<close>

theorem C2_claim_before_dispatch_and_writes:
  assumes run: "process_batch_from_bq cfg w = (res, tr)"
    and reached: "\<exists>e \<in> set tr. is_submit e \<or> is_write e"
  shows "\<exists>rows writes.
           fetch_reply w = Inr rows \<and> claim_reply w = None
           \<and> tr = [Query_fetch (table_ref cfg (BIGQUERY_TABLE_SOURCE cfg)) BATCH_SIZE,
                   Query_claim (table_ref cfg (BIGQUERY_TABLE_SOURCE cfg)) (map row_id rows)]
                    @ map (\<lambda>it. Submit (url it)) rows @ writes
           \<and> (\<forall>e \<in> set writes. \<exists>rid c s. rid \<in> set (map row_id rows)
                 \<and> e = Query_write (table_ref cfg (BIGQUERY_TABLE_TARGET cfg)) rid c s)"
proof -
  from process_shapes [OF run] reached
  obtain rows where rows: "fetch_reply w = Inr rows" "claim_reply w = None"
    and tr: "tr = [Query_fetch (table_ref cfg (BIGQUERY_TABLE_SOURCE cfg)) BATCH_SIZE,
              Query_claim (table_ref cfg (BIGQUERY_TABLE_SOURCE cfg)) (map row_id rows)]
               @ map (\<lambda>it. Submit (url it)) rows
               @ snd (write_back cfg w (dispatch cfg w rows))"
    by auto
  have "\<exists>rid c s. rid \<in> set (map row_id rows)
          \<and> e = Query_write (table_ref cfg (BIGQUERY_TABLE_TARGET cfg)) rid c s"
    if "e \<in> set (snd (write_back cfg w (dispatch cfg w rows)))" for e
  proof -
    from write_back_events [OF that] obtain rid d
      where mem: "(rid, d) \<in> set (dispatch cfg w rows)"
        and e: "e = Query_write (table_ref cfg (BIGQUERY_TABLE_TARGET cfg)) rid
                      (context_str d) (status d)"
      by blast
    from mem have "rid \<in> set (map fst (dispatch cfg w rows))" by force
    then have "rid \<in> set (map row_id rows)" by (simp only: keys_dispatch)
    with e show ?thesis by blast
  qed
  with rows tr show ?thesis by blast
qed

theorem C2_claim_before_dispatch_and_writes_witness:
  "snd (process_batch_from_bq example_config
          (example_world three_rows (\<lambda>i. fate_ok) (\<lambda>r. None))) =
     [Query_fetch ''proj.ds.videos'' 5,
      Query_claim ''proj.ds.videos'' [''1'', ''2'', ''3''],
      Submit ''u1'', Submit ''u2'', Submit ''u3'',
      Query_write ''proj.ds.videos'' ''1'' ''chapter'' COMPLETED,
      Query_write ''proj.ds.videos'' ''2'' ''chapter'' COMPLETED,
      Query_write ''proj.ds.videos'' ''3'' ''chapter'' COMPLETED]
   \<and> claim_reply (example_world three_rows (\<lambda>i. fate_ok) (\<lambda>r. None)) = None"
proof -
  let ?w = "example_world three_rows (\<lambda>i. fate_ok) (\<lambda>r. None)"
  let ?tr = "[Query_fetch ''proj.ds.videos'' 5,
       Query_claim ''proj.ds.videos'' [''1'', ''2'', ''3''],
       Submit ''u1'', Submit ''u2'', Submit ''u3'',
       Query_write ''proj.ds.videos'' ''1'' ''chapter'' COMPLETED,
       Query_write ''proj.ds.videos'' ''2'' ''chapter'' COMPLETED,
       Query_write ''proj.ds.videos'' ''3'' ''chapter'' COMPLETED]"
  have rows: "three_rows \<noteq> []" by (simp add: three_rows_def)
  have writes: "snd (write_back example_config ?w (dispatch example_config ?w three_rows)) =
      [Query_write ''proj.ds.videos'' ''1'' ''chapter'' COMPLETED,
       Query_write ''proj.ds.videos'' ''2'' ''chapter'' COMPLETED,
       Query_write ''proj.ds.videos'' ''3'' ''chapter'' COMPLETED]"
    by (simp only: write_back_trace [OF example_config_set(2)] three_rows_dispatch_ok)
      (simp add: example_table_ref)
  have "snd (process_batch_from_bq example_config ?w) =
      [Query_fetch (table_ref example_config (BIGQUERY_TABLE_SOURCE example_config)) BATCH_SIZE,
       Query_claim (table_ref example_config (BIGQUERY_TABLE_SOURCE example_config))
         (map row_id three_rows)]
        @ map (\<lambda>it. Submit (url it)) three_rows
        @ snd (write_back example_config ?w (dispatch example_config ?w three_rows))"
    by (simp only: process_success [OF example_config_set(1) example_config_set(3)
          example_world_sel(2) rows example_world_sel(3)] snd_conv)
  then have tr: "snd (process_batch_from_bq example_config ?w) = ?tr"
    by (simp only: writes example_table_ref BATCH_SIZE_def) (simp add: three_rows_def)
  have run: "process_batch_from_bq example_config ?w =
               (fst (process_batch_from_bq example_config ?w), ?tr)"
    using tr by (metis prod.collapse)
  have reached: "\<exists>e \<in> set ?tr. is_submit e \<or> is_write e" by simp
  from C2_claim_before_dispatch_and_writes [OF run reached]
  have "claim_reply ?w = None" by blast
  with tr show ?thesis by simp
qed

lemma str_nat_zero: "str_nat 0 = ''0''"
  by (simp add: str_nat_digit digit_def)

lemma read_config_sel:
  "BIGQUERY_TABLE_SOURCE (read_config env) = env ''BIGQUERY_TABLE_SOURCE''"
  "BIGQUERY_TABLE_TARGET (read_config env) = env ''BIGQUERY_TABLE_TARGET''"
  "BIGQUERY_PROJECT (read_config env) = env ''BIGQUERY_PROJECT''"
  "BIGQUERY_DATASET (read_config env) = env ''BIGQUERY_DATASET''"
  "URL_PROCESSOR_SERVICE_URL (read_config env) =
     (case env ''URL_PROCESSOR_SERVICE_URL'' of None \<Rightarrow> DEFAULT_URL | Some u \<Rightarrow> u)"
  by (simp_all add: read_config_def)

lemma DEFAULT_URL_nonempty: "DEFAULT_URL \<noteq> []"
  by (simp add: DEFAULT_URL_def)

lemma run_module_started:
  "client_init w = None \<Longrightarrow> URL_PROCESSOR_SERVICE_URL (read_config env) \<noteq> [] \<Longrightarrow>
   run_module env w = process_batch_from_bq (read_config env) w"
  by (simp add: run_module_def Let_def)

lemma env_source_only_sel:
  "env_source_only ''BIGQUERY_TABLE_SOURCE'' = Some ''videos''"
  "env_source_only ''BIGQUERY_TABLE_TARGET'' = None"
  "env_source_only ''URL_PROCESSOR_SERVICE_URL'' = None"
  "env_source_only ''BIGQUERY_PROJECT'' = None"
  "env_source_only ''BIGQUERY_DATASET'' = None"
  by (simp_all add: env_source_only_def)

subsection \<open>The endpoint address at startup\<close>

text \<open>
  Claim C3 at an environment that does not set the endpoint address: the module-level
  check of lines 30 to 32 raises \<open>ValueError\<close> for an address that is empty, but line 20
  reads the variable with a placeholder default, so with the variable unset the address
  is that placeholder, the check passes, and the job goes on to query the store. Here
  the SELECT is issued and the run returns code 200.
\<close>

theorem C3_unset_url_runs_job:
  "env_source_only ''URL_PROCESSOR_SERVICE_URL'' = None
   \<and> URL_PROCESSOR_SERVICE_URL (read_config env_source_only) = DEFAULT_URL
   \<and> run_module env_source_only (example_world [] (\<lambda>i. fate_ok) (\<lambda>r. None)) =
       (Returned ''No pending URLs found. Job finished.'' 200,
        [Query_fetch ''None.None.videos'' 5])"
  by (simp add: run_module_def Let_def read_config_sel env_source_only_sel example_world_sel
      DEFAULT_URL_nonempty process_batch_from_bq_def py_not_def table_ref_def py_str_def
      BATCH_SIZE_def)

subsection \<open>No pending work\<close>

text \<open>
  Claim C8: when the SELECT returns no row, \<open>process_batch_from_bq\<close> returns the message
  "No pending URLs found. Job finished." with code 200, and the SELECT is the only thing
  it has asked of the store: no bulk UPDATE and no single-row UPDATE is issued.
\<close>

theorem C8_no_pending_no_mutation:
  assumes "\<not> py_not (BIGQUERY_TABLE_SOURCE cfg)" and "URL_PROCESSOR_SERVICE_URL cfg \<noteq> []"
    and "fetch_reply w = Inr []"
  shows "process_batch_from_bq cfg w =
           (Returned ''No pending URLs found. Job finished.'' 200,
            [Query_fetch (table_ref cfg (BIGQUERY_TABLE_SOURCE cfg)) BATCH_SIZE])"
  using assms by (simp add: process_batch_from_bq_def)

theorem C8_no_pending_no_mutation_witness:
  "fetch_reply (example_world [] (\<lambda>i. fate_ok) (\<lambda>r. None)) = Inr []
   \<and> process_batch_from_bq example_config (example_world [] (\<lambda>i. fate_ok) (\<lambda>r. None)) =
       (Returned ''No pending URLs found. Job finished.'' 200,
        [Query_fetch ''proj.ds.videos'' 5])"
  using C8_no_pending_no_mutation [OF example_config_set(1) example_config_set(3)
      example_world_sel(2) [of "[]" "\<lambda>i. fate_ok" "\<lambda>r. None"]]
  by (simp add: example_world_sel example_table_ref BATCH_SIZE_def)

subsection \<open>Target table not configured\<close>

text \<open>
  Claim C9: with the source table set and the target table unset (the endpoint address not
  empty, the client created, a non-empty batch fetched and claimed), the module does not
  fail at startup; the job issues the SELECT and the bulk UPDATE and submits every row;
  every call of \<open>update_bq_row\<close> returns \<open>False\<close> and issues no query, so the bulk UPDATE
  that set \<open>PROCESSING\<close> is the last statement sent to the store; and the job returns
  code 200 with a message that counts zero updated rows.
\<close>

theorem C9_unset_target_still_runs:
  assumes src: "env ''BIGQUERY_TABLE_SOURCE'' = Some s" "s \<noteq> []"
    and tgt: "env ''BIGQUERY_TABLE_TARGET'' = None"
    and addr: "env ''URL_PROCESSOR_SERVICE_URL'' \<noteq> Some []"
    and init: "client_init w = None"
    and fetch: "fetch_reply w = Inr rows" "rows \<noteq> []"
    and claim: "claim_reply w = None"
  shows "run_module env w =
           (Returned (''Batch processing complete. Processed ''
                        @ str_nat (length (dispatch (read_config env) w rows))
                        @ '' URLs, updated 0.'') 200,
            [Query_fetch (table_ref (read_config env) (Some s)) BATCH_SIZE,
             Query_claim (table_ref (read_config env) (Some s)) (map row_id rows)]
              @ map (\<lambda>it. Submit (url it)) rows)
         \<and> (\<forall>rid ctx st. update_bq_row (read_config env) w rid ctx st = (False, []))"
proof -
  let ?cfg = "read_config env"
  have source: "\<not> py_not (BIGQUERY_TABLE_SOURCE ?cfg)"
    using src by (simp add: read_config_sel py_not_def)
  have target: "py_not (BIGQUERY_TABLE_TARGET ?cfg)"
    using tgt by (simp add: read_config_sel py_not_def)
  have address: "URL_PROCESSOR_SERVICE_URL ?cfg \<noteq> []"
    using addr by (auto simp: read_config_sel DEFAULT_URL_nonempty split: option.splits)
  have "run_module env w = process_batch_from_bq ?cfg w"
    using init address by (rule run_module_started)
  also have "\<dots> =
      (Returned (final_message (length (dispatch ?cfg w rows))
                   (fst (write_back ?cfg w (dispatch ?cfg w rows)))) 200,
       [Query_fetch (table_ref ?cfg (BIGQUERY_TABLE_SOURCE ?cfg)) BATCH_SIZE,
        Query_claim (table_ref ?cfg (BIGQUERY_TABLE_SOURCE ?cfg)) (map row_id rows)]
         @ map (\<lambda>it. Submit (url it)) rows
         @ snd (write_back ?cfg w (dispatch ?cfg w rows)))"
    using source address fetch claim by (rule process_success)
  finally have run: "run_module env w =
      (Returned (final_message (length (dispatch ?cfg w rows)) 0) 200,
       [Query_fetch (table_ref ?cfg (Some s)) BATCH_SIZE,
        Query_claim (table_ref ?cfg (Some s)) (map row_id rows)]
         @ map (\<lambda>it. Submit (url it)) rows)"
    using src(1) by (simp add: write_back_no_target [OF target] read_config_sel)
  have "update_bq_row ?cfg w rid ctx st = (False, [])" for rid ctx st
    using target by (simp add: update_bq_row_def)
  with run show ?thesis by (simp add: final_message_def str_nat_zero)
qed

theorem C9_unset_target_still_runs_witness:
  "env_source_only ''BIGQUERY_TABLE_SOURCE'' = Some ''videos''
   \<and> env_source_only ''BIGQUERY_TABLE_TARGET'' = None
   \<and> run_module env_source_only (example_world three_rows (\<lambda>i. fate_ok) (\<lambda>r. None)) =
       (Returned ''Batch processing complete. Processed 3 URLs, updated 0.'' 200,
        [Query_fetch ''None.None.videos'' 5,
         Query_claim ''None.None.videos'' [''1'', ''2'', ''3''],
         Submit ''u1'', Submit ''u2'', Submit ''u3''])"
proof -
  let ?w = "example_world three_rows (\<lambda>i. fate_ok) (\<lambda>r. None)"
  have rows: "three_rows \<noteq> []" by (simp add: three_rows_def)
  have addr: "env_source_only ''URL_PROCESSOR_SERVICE_URL'' \<noteq> Some []"
    by (simp add: env_source_only_sel)
  have s: "''videos'' \<noteq> []" by simp
  have tbl: "table_ref (read_config env_source_only) (Some ''videos'') = ''None.None.videos''"
    by (simp add: table_ref_def read_config_sel env_source_only_sel py_str_def)
  have n: "str_nat (length (dispatch (read_config env_source_only) ?w three_rows)) = ''3''"
    by (simp only: three_rows_dispatch_ok) (simp add: str_nat_digit digit_def)
  from C9_unset_target_still_runs [OF env_source_only_sel(1) s env_source_only_sel(2) addr
      example_world_sel(1) example_world_sel(2) rows example_world_sel(3)]
  have "run_module env_source_only ?w =
      (Returned (''Batch processing complete. Processed ''
                  @ str_nat (length (dispatch (read_config env_source_only) ?w three_rows))
                  @ '' URLs, updated 0.'') 200,
       [Query_fetch (table_ref (read_config env_source_only) (Some ''videos'')) BATCH_SIZE,
        Query_claim (table_ref (read_config env_source_only) (Some ''videos''))
          (map row_id three_rows)]
         @ map (\<lambda>it. Submit (url it)) three_rows)"
    by blast
  then have "run_module env_source_only ?w =
      (Returned ''Batch processing complete. Processed 3 URLs, updated 0.'' 200,
       [Query_fetch ''None.None.videos'' 5,
        Query_claim ''None.None.videos'' [''1'', ''2'', ''3''],
        Submit ''u1'', Submit ''u2'', Submit ''u3''])"
    by (simp only: n tbl BATCH_SIZE_def) (simp add: three_rows_def)
  then show ?thesis by (simp add: env_source_only_sel)
qed

lemma one_row_dispatch:
  "dispatch cfg (example_world one_row (\<lambda>i. f) wr) one_row =
     [(''42'', outcome_of ''42'' (future_result cfg f ''https://youtu.be/abc''))]"
  by (simp add: dispatch_def submit_all_def one_row_def example_world_sel)

lemma fate_sel:
  "wait fate_ok = None" "http fate_ok = Response 200 ''chapter'' []"
  "wait fate_endpoint_error = None"
  "http fate_endpoint_error = Response 200 ''ERROR: no video'' []"
  "wait fate_http_timeout = None" "http fate_http_timeout = Timeout"
  "wait fate_wait_timeout = Some TimeoutError"
  "http fate_wait_timeout = Response 200 ''chapter'' []"
  by (simp_all add: fate_ok_def fate_endpoint_error_def fate_http_timeout_def
      fate_wait_timeout_def)

subsection \<open>Timeouts\<close>




subsection \<open>Classification of the returned text\<close>

text \<open>
  Claim C5: for a row of the batch whose processing call returns a text in time, the
  outcome stored under the row's id has that text, unchanged, as its context; its status
  is \<open>FAILED_PROCESSING\<close> when the text begins with "ERROR:" and \<open>COMPLETED\<close> when it does
  not. The first conjunct is about the dictionary the dispatcher returns, where the row
  is the last one carrying its id (each row, when ids are distinct); the second is about
  the row's own iteration of the loop, whatever the dictionary held before.
\<close>

theorem C5_returned_text_classified_by_prefix:
  assumes i: "i < length rows"
    and last: "row_id (rows ! i) \<notin> row_id ` set (drop (Suc i) rows)"
    and returned: "wait (fates w i) = None"
    and content: "call_url_processor_service cfg (http (fates w i)) (url (rows ! i)) = content"
  shows "map_of (dispatch cfg w rows) (row_id (rows ! i)) =
           Some \<lparr> context_str = content,
                  status = (if prefix ''ERROR:'' content then FAILED_PROCESSING else COMPLETED) \<rparr>
         \<and> (\<forall>acc. map_of (collect [(row_id (rows ! i), Inr content)] acc) (row_id (rows ! i)) =
               Some \<lparr> context_str = content,
                      status = (if prefix ''ERROR:'' content then FAILED_PROCESSING
                                else COMPLETED) \<rparr>)"
proof -
  have fut: "future_result cfg (fates w i) (url (rows ! i)) = Inr content"
    using returned content by (simp add: future_result_def)
  have out: "outcome_of rid (Inr content) =
      \<lparr> context_str = content,
        status = (if prefix ''ERROR:'' content then FAILED_PROCESSING else COMPLETED) \<rparr>" for rid
    by (simp only: outcome_of_content startswith_iff_prefix)
  have "map_of (dispatch cfg w rows) (row_id (rows ! i)) =
          Some (outcome_of (row_id (rows ! i)) (Inr content))"
    using dispatch_entry [OF i last, of cfg w] by (simp only: fut)
  moreover have "map_of (collect [(row_id (rows ! i), Inr content)] acc) (row_id (rows ! i)) =
          Some (outcome_of (row_id (rows ! i)) (Inr content))" for acc
    using map_of_collect_last [of "row_id (rows ! i)" "[]" "[]" "Inr content" acc] by simp
  ultimately show ?thesis by (simp only: out) simp
qed

theorem C5_returned_text_classified_by_prefix_witness:
  "map_of (dispatch example_config
      (example_world three_rows (\<lambda>i. if i = 1 then fate_endpoint_error else fate_ok)
         (\<lambda>r. None)) three_rows) ''2'' =
     Some \<lparr> context_str = ''ERROR: no video'', status = FAILED_PROCESSING \<rparr>
   \<and> map_of (dispatch example_config
      (example_world three_rows (\<lambda>i. if i = 1 then fate_endpoint_error else fate_ok)
         (\<lambda>r. None)) three_rows) ''1'' =
     Some \<lparr> context_str = ''chapter'', status = COMPLETED \<rparr>"
proof -
  let ?w = "example_world three_rows (\<lambda>i. if i = 1 then fate_endpoint_error else fate_ok)
              (\<lambda>r. None)"
  have i1: "1 < length three_rows" and i0: "0 < length three_rows"
    by (simp_all add: three_rows_def)
  have l1: "row_id (three_rows ! 1) \<notin> row_id ` set (drop (Suc 1) three_rows)"
    and l0: "row_id (three_rows ! 0) \<notin> row_id ` set (drop (Suc 0) three_rows)"
    by (simp_all add: three_rows_def)
  have w1: "wait (fates ?w 1) = None" and w0: "wait (fates ?w 0) = None"
    by (simp_all add: example_world_sel fate_sel)
  have c1: "call_url_processor_service example_config (http (fates ?w 1)) (url (three_rows ! 1))
              = ''ERROR: no video''"
    and c0: "call_url_processor_service example_config (http (fates ?w 0)) (url (three_rows ! 0))
              = ''chapter''"
    by (simp_all add: example_world_sel fate_sel call_url_processor_service_def)
  have r: "row_id (three_rows ! 1) = ''2''" "row_id (three_rows ! 0) = ''1''"
    by (simp_all add: three_rows_def)
  have "map_of (dispatch example_config ?w three_rows) (row_id (three_rows ! 1)) =
      Some \<lparr> context_str = ''ERROR: no video'',
             status = (if prefix ''ERROR:'' ''ERROR: no video'' then FAILED_PROCESSING
                       else COMPLETED) \<rparr>"
    using C5_returned_text_classified_by_prefix [OF i1 l1 w1 c1] by (rule conjunct1)
  then have a: "map_of (dispatch example_config ?w three_rows) ''2'' =
      Some \<lparr> context_str = ''ERROR: no video'', status = FAILED_PROCESSING \<rparr>"
    by (simp only: r) simp
  have "map_of (dispatch example_config ?w three_rows) (row_id (three_rows ! 0)) =
      Some \<lparr> context_str = ''chapter'',
             status = (if prefix ''ERROR:'' ''chapter'' then FAILED_PROCESSING
                       else COMPLETED) \<rparr>"
    using C5_returned_text_classified_by_prefix [OF i0 l0 w0 c0] by (rule conjunct1)
  then have b: "map_of (dispatch example_config ?w three_rows) ''1'' =
      Some \<lparr> context_str = ''chapter'', status = COMPLETED \<rparr>"
    by (simp only: r) simp
  from a b show ?thesis by (rule conjI)
qed

subsection \<open>The error marker is the only signal\<close>



lemma one_row_outcomes:
  "dispatch example_config (example_world one_row (\<lambda>i. fate_ok) wr) one_row =
     [(''42'', \<lparr> context_str = ''chapter'', status = COMPLETED \<rparr>)]"
  "dispatch example_config (example_world one_row (\<lambda>i. fate_endpoint_error) wr) one_row =
     [(''42'', \<lparr> context_str = ''ERROR: no video'', status = FAILED_PROCESSING \<rparr>)]"
  by (simp_all add: one_row_dispatch future_result_def fate_sel call_url_processor_service_def)

lemma one_row_report:
  assumes "length (dispatch example_config (example_world one_row fs (\<lambda>r. None)) one_row) = 1"
  shows "fst (process_batch_from_bq example_config (example_world one_row fs (\<lambda>r. None))) =
           Returned ''Batch processing complete. Processed 1 URLs, updated 1.'' 200"
proof -
  let ?w = "example_world one_row fs (\<lambda>r. None)"
  have rows: "one_row \<noteq> []" by (simp add: one_row_def)
  have k: "fst (write_back example_config ?w (dispatch example_config ?w one_row)) = 1"
    using assms
    by (simp add: write_back_count [OF example_config_set(2)] example_world_sel)
  show ?thesis
    by (simp only: process_success [OF example_config_set(1) example_config_set(3)
          example_world_sel(2) rows example_world_sel(3)] fst_conv k assms)
      (simp add: final_message_def str_nat_digit digit_def)
qed

subsection \<open>The report of a run\<close>

text \<open>
  Claim C6 as stated fails: the returned message carries two numbers, and neither is the
  count of completed or of failed items. Here two runs over the same single row, one whose
  item completes and one whose item fails, return the same message and code.
\<close>

theorem C6_report_counterexample:
  "fst (process_batch_from_bq example_config
          (example_world one_row (\<lambda>i. fate_ok) (\<lambda>r. None))) =
     Returned ''Batch processing complete. Processed 1 URLs, updated 1.'' 200
   \<and> fst (process_batch_from_bq example_config
          (example_world one_row (\<lambda>i. fate_endpoint_error) (\<lambda>r. None))) =
     Returned ''Batch processing complete. Processed 1 URLs, updated 1.'' 200
   \<and> count_status COMPLETED (dispatch example_config
          (example_world one_row (\<lambda>i. fate_ok) (\<lambda>r. None)) one_row) = 1
   \<and> count_status COMPLETED (dispatch example_config
          (example_world one_row (\<lambda>i. fate_endpoint_error) (\<lambda>r. None)) one_row) = 0
   \<and> count_status FAILED_PROCESSING (dispatch example_config
          (example_world one_row (\<lambda>i. fate_ok) (\<lambda>r. None)) one_row) = 0
   \<and> count_status FAILED_PROCESSING (dispatch example_config
          (example_world one_row (\<lambda>i. fate_endpoint_error) (\<lambda>r. None)) one_row) = 1"
proof -
  have a: "fst (process_batch_from_bq example_config
          (example_world one_row (\<lambda>i. fate_ok) (\<lambda>r. None))) =
     Returned ''Batch processing complete. Processed 1 URLs, updated 1.'' 200"
    by (rule one_row_report) (simp add: one_row_outcomes)
  have b: "fst (process_batch_from_bq example_config
          (example_world one_row (\<lambda>i. fate_endpoint_error) (\<lambda>r. None))) =
     Returned ''Batch processing complete. Processed 1 URLs, updated 1.'' 200"
    by (rule one_row_report) (simp add: one_row_outcomes)
  show ?thesis
    by (simp only: a b one_row_outcomes) (simp add: count_status_def)
qed

text \<open>
  Claim C6, amended: a run that reaches step 4 returns code 200 and the message
  "Batch processing complete. Processed <n> URLs, updated <k>.", where n is the number of
  outcomes (one per distinct claimed id) and k the number of result writes that succeeded
  (none when the target table is not configured); k is at most n, so the number of failed
  writes is n - k.
\<close>

theorem C6_report_two_counts:
  assumes "\<not> py_not (BIGQUERY_TABLE_SOURCE cfg)" and "URL_PROCESSOR_SERVICE_URL cfg \<noteq> []"
    and "fetch_reply w = Inr rows" and "rows \<noteq> []" and "claim_reply w = None"
  shows "fst (process_batch_from_bq cfg w) =
           Returned (''Batch processing complete. Processed ''
                       @ str_nat (length (dispatch cfg w rows)) @ '' URLs, updated ''
                       @ str_nat (fst (write_back cfg w (dispatch cfg w rows))) @ ''.'') 200
         \<and> length (dispatch cfg w rows) = card (set (map row_id rows))
         \<and> fst (write_back cfg w (dispatch cfg w rows)) =
             (if py_not (BIGQUERY_TABLE_TARGET cfg) then 0
              else length (filter (\<lambda>(rid, d). write_reply w rid = None) (dispatch cfg w rows)))
         \<and> fst (write_back cfg w (dispatch cfg w rows)) \<le> length (dispatch cfg w rows)"
proof -
  have "fst (process_batch_from_bq cfg w) =
          Returned (final_message (length (dispatch cfg w rows))
                      (fst (write_back cfg w (dispatch cfg w rows)))) 200"
    by (simp only: process_success [OF assms] fst_conv)
  moreover have "fst (write_back cfg w (dispatch cfg w rows)) =
             (if py_not (BIGQUERY_TABLE_TARGET cfg) then 0
              else length (filter (\<lambda>(rid, d). write_reply w rid = None) (dispatch cfg w rows)))"
    by (simp add: write_back_no_target write_back_count)
  ultimately show ?thesis
    using length_dispatch [of cfg w rows] write_back_le [of cfg w "dispatch cfg w rows"]
    by (simp only: final_message_def)
qed

theorem C6_report_two_counts_witness:
  "fst (process_batch_from_bq example_config
          (example_world three_rows (\<lambda>i. fate_ok) (\<lambda>r. if r = ''2'' then Some (Exception ''down'') else None))) =
     Returned ''Batch processing complete. Processed 3 URLs, updated 2.'' 200"
proof -
  let ?w = "example_world three_rows (\<lambda>i. fate_ok)
              (\<lambda>r. if r = ''2'' then Some (Exception ''down'') else None)"
  have rows: "three_rows \<noteq> []" by (simp add: three_rows_def)
  note inst = C6_report_two_counts [OF example_config_set(1) example_config_set(3)
      example_world_sel(2) rows example_world_sel(3),
      of "\<lambda>i. fate_ok" "\<lambda>r. if r = ''2'' then Some (Exception ''down'') else None"]
  have n: "length (dispatch example_config ?w three_rows) = 3"
    by (simp only: three_rows_dispatch_ok) simp
  have "fst (write_back example_config ?w (dispatch example_config ?w three_rows)) =
      length (filter (\<lambda>(rid, d). write_reply ?w rid = None)
                (dispatch example_config ?w three_rows))"
    using inst example_config_set(2) by simp
  then have k: "fst (write_back example_config ?w (dispatch example_config ?w three_rows)) = 2"
    by (simp only: three_rows_dispatch_ok example_world_sel) simp
  from inst have "fst (process_batch_from_bq example_config ?w) =
           Returned (''Batch processing complete. Processed ''
                       @ str_nat (length (dispatch example_config ?w three_rows))
                       @ '' URLs, updated ''
                       @ str_nat (fst (write_back example_config ?w
                                         (dispatch example_config ?w three_rows))) @ ''.'') 200"
    by (rule conjunct1)
  then show ?thesis
    by (simp only: n k) (simp add: str_nat_digit digit_def)
qed

subsection \<open>Writing the results back\<close>

text \<open>
  Claim C7: with the target table configured, step 4 issues exactly one single-row UPDATE
  per outcome, in the order of the dictionary and with the outcome's id, context and
  status, whatever the store answers to each of them; a write that fails makes
  \<open>update_bq_row\<close> return \<open>False\<close>, it is left out of \<open>successful_updates\<close>, and the loop
  goes on to the next outcome.
\<close>

theorem C7_every_outcome_written_once:
  assumes "\<not> py_not (BIGQUERY_TABLE_TARGET cfg)"
  shows "snd (write_back cfg w outs) =
           map (\<lambda>(rid, d). Query_write (table_ref cfg (BIGQUERY_TABLE_TARGET cfg)) rid
                  (context_str d) (status d)) outs
         \<and> fst (write_back cfg w outs) =
             length (filter (\<lambda>(rid, d). write_reply w rid = None) outs)
         \<and> (\<forall>rid ctx st.
               update_bq_row cfg w rid ctx st =
                 (write_reply w rid = None,
                  [Query_write (table_ref cfg (BIGQUERY_TABLE_TARGET cfg)) rid ctx st]))"
  using assms write_back_trace [OF assms, of w outs] write_back_count [OF assms, of w outs]
  by (simp add: update_bq_row_def split: option.splits)

theorem C7_every_outcome_written_once_witness:
  "write_back example_config
     (example_world three_rows (\<lambda>i. fate_ok)
        (\<lambda>r. if r = ''1'' then Some (Exception ''down'') else None))
     [(''1'', \<lparr> context_str = ''chapter'', status = COMPLETED \<rparr>),
      (''2'', \<lparr> context_str = ''chapter'', status = COMPLETED \<rparr>),
      (''3'', \<lparr> context_str = ''chapter'', status = COMPLETED \<rparr>)] =
     (2, [Query_write ''proj.ds.videos'' ''1'' ''chapter'' COMPLETED,
          Query_write ''proj.ds.videos'' ''2'' ''chapter'' COMPLETED,
          Query_write ''proj.ds.videos'' ''3'' ''chapter'' COMPLETED])"
proof -
  let ?w = "example_world three_rows (\<lambda>i. fate_ok)
              (\<lambda>r. if r = ''1'' then Some (Exception ''down'') else None)"
  let ?outs = "[(''1'', \<lparr> context_str = ''chapter'', status = COMPLETED \<rparr>),
      (''2'', \<lparr> context_str = ''chapter'', status = COMPLETED \<rparr>),
      (''3'', \<lparr> context_str = ''chapter'', status = COMPLETED \<rparr>)]"
  note inst = C7_every_outcome_written_once [OF example_config_set(2), of ?w ?outs]
  from inst have "snd (write_back example_config ?w ?outs) =
      map (\<lambda>(rid, d). Query_write (table_ref example_config
                         (BIGQUERY_TABLE_TARGET example_config)) rid
                  (context_str d) (status d)) ?outs"
    by (rule conjunct1)
  then have a: "snd (write_back example_config ?w ?outs) =
      [Query_write ''proj.ds.videos'' ''1'' ''chapter'' COMPLETED,
       Query_write ''proj.ds.videos'' ''2'' ''chapter'' COMPLETED,
       Query_write ''proj.ds.videos'' ''3'' ''chapter'' COMPLETED]"
    by (simp only: example_table_ref) simp
  from inst have "fst (write_back example_config ?w ?outs) =
             length (filter (\<lambda>(rid, d). write_reply ?w rid = None) ?outs)"
    by blast
  then have b: "fst (write_back example_config ?w ?outs) = 2"
    by (simp only: example_world_sel) simp
  from a b show ?thesis by (simp only: prod_eq_iff fst_conv snd_conv)
qed

end
